theory Spec2Isabelle
  imports Main "HOL-Library.Sublist"
begin

section \<open>Web Security Suite: the classification and risk-scoring rules\<close>

text \<open>
  A shallow embedding of the decision logic of the browser extension
  \<^verbatim>\<open>web-security-suite\<close>: the reputation check of \<^verbatim>\<open>background.js\<close> and
  the keyword filter, the form analysis and the shortener detection of
  \<^verbatim>\<open>content.js\<close>. The DOM, \<^verbatim>\<open>fetch\<close>, the \<^verbatim>\<open>URL\<close> constructor and
  \<^verbatim>\<open>String.prototype.toLowerCase\<close> are the platform's: what the code gets from them
  is an argument of the model. In \<^verbatim>\<open>background.js\<close> strings are only passed on and
  compared with literals, and they are modelled as \<^typ>\<open>string\<close>; in
  \<^verbatim>\<open>content.js\<close> strings are trimmed, searched and cut, and there a string is the
  list of its UTF-16 code units.
\<close>

subsection \<open>background.js: URL reputation\<close>

text \<open>
  The body of the Safe Browsing answer, as far as the code reads it: \<^verbatim>\<open>data.matches\<close>,
  absent (\<open>None\<close>) or an array of matches, each match given by its \<^verbatim>\<open>threatType\<close>.
\<close>

record sbData =
  matches :: "string list option"

text \<open>
  What \<^verbatim>\<open>await fetch(...)\<close> followed by \<^verbatim>\<open>await response.json()\<close> comes to
  inside the \<^verbatim>\<open>try\<close> block: an exception with its \<^verbatim>\<open>message\<close> (the request
  was rejected, or the body was not the JSON object expected), or the parsed body.
\<close>

datatype fetchOutcome = Thrown string | Parsed sbData

text \<open>
  The object \<^verbatim>\<open>checkUrlReputation\<close> returns. The field \<^verbatim>\<open>error\<close> exists in the
  object of the \<^verbatim>\<open>catch\<close> branch only; \<open>None\<close> is \<^verbatim>\<open>undefined\<close> (or
  \<^verbatim>\<open>null\<close>).
\<close>

record reputation =
  status :: string
  threatType :: string
  riskScore :: int
  url :: string
  error :: "string option"

text \<open>The \<^verbatim>\<open>data\<close> object of the reply to \<^verbatim>\<open>checkReputation\<close>.\<close>

record reputationData = reputation +
  riskLabel :: string

datatype reply = Success reputationData | Failure string

definition checkUrlReputation :: "fetchOutcome \<Rightarrow> string \<Rightarrow> reputation" where
  "checkUrlReputation outcome u =
     (case outcome of
        Parsed d \<Rightarrow>
          (case matches d of
             Some (m # ms) \<Rightarrow>
               \<lparr>status = ''Malicious'', threatType = m, riskScore = 40, url = u, error = None\<rparr>
           | _ \<Rightarrow>
               \<lparr>status = ''Safe'', threatType = ''None'', riskScore = 0, url = u, error = None\<rparr>)
      | Thrown message \<Rightarrow>
          \<lparr>status = ''Error'', threatType = ''Unknown'', riskScore = 0, url = u,
           error = Some message\<rparr>)"

definition getRiskLabel :: "int \<Rightarrow> string" where
  "getRiskLabel score =
     (if 0 \<le> score \<and> score \<le> 30 then ''Safe''
      else if 31 \<le> score \<and> score \<le> 60 then ''Suspicious''
      else if 61 \<le> score \<and> score \<le> 100 then ''High Risk''
      else ''Unknown'')"

text \<open>
  \<^verbatim>\<open>result.error || null\<close>: an absent field and the empty string are falsy and give
  \<^verbatim>\<open>null\<close>.
\<close>

definition orNull :: "string option \<Rightarrow> string option" where
  "orNull e = (case e of Some (c # cs) \<Rightarrow> Some (c # cs) | _ \<Rightarrow> None)"

text \<open>
  The \<^verbatim>\<open>checkReputation\<close> branch of the message listener. Nothing in its
  \<^verbatim>\<open>try\<close> block throws (\<^verbatim>\<open>checkUrlReputation\<close> catches its own exceptions), so
  the reply is always the \<^verbatim>\<open>success: true\<close> one.
\<close>

definition checkReputation :: "fetchOutcome \<Rightarrow> string \<Rightarrow> reply" where
  "checkReputation outcome u =
     (let result = checkUrlReputation outcome u;
          label = getRiskLabel (riskScore result)
      in Success \<lparr>status = status result, threatType = threatType result,
                   riskScore = riskScore result, url = url result,
                   error = orNull (error result), riskLabel = label\<rparr>)"

subsection \<open>content.js: JavaScript strings\<close>

text \<open>
  A string is the list of its UTF-16 code units, each a natural number (below 65536 for a
  real string; nothing here depends on that bound). \<open>js\<close> turns an ASCII literal into
  its code units.
\<close>

type_synonym jsstring = "nat list"

definition js :: "string \<Rightarrow> jsstring" where
  "js s = map of_char s"

text \<open>
  \<^verbatim>\<open>s.trim()\<close> strips white space and line terminators at both ends: tab, line feed,
  vertical tab, form feed, carriage return, space, the no-break space, U+1680, U+2000 to
  U+200A, the line and paragraph separators, U+202F, U+205F, U+3000 and U+FEFF.
\<close>

definition isWhitespace :: "nat \<Rightarrow> bool" where
  "isWhitespace c =
     (c \<in> set [0x09, 0x0A, 0x0B, 0x0C, 0x0D, 0x20, 0xA0, 0x1680,
               0x2000, 0x2001, 0x2002, 0x2003, 0x2004, 0x2005, 0x2006, 0x2007, 0x2008, 0x2009,
               0x200A, 0x2028, 0x2029, 0x202F, 0x205F, 0x3000, 0xFEFF])"

definition trim :: "jsstring \<Rightarrow> jsstring" where
  "trim s = rev (dropWhile isWhitespace (rev (dropWhile isWhitespace s)))"

text \<open>\<^verbatim>\<open>s.includes(k)\<close>: \<open>k\<close> starts at some position of \<open>s\<close>.\<close>

fun str_includes :: "jsstring \<Rightarrow> jsstring \<Rightarrow> bool" where
  "str_includes [] k = (k = [])"
| "str_includes (c # cs) k = (prefix k (c # cs) \<or> str_includes cs k)"

text \<open>\<^verbatim>\<open>s.startsWith(p)\<close>.\<close>

definition startsWith :: "jsstring \<Rightarrow> jsstring \<Rightarrow> bool" where
  "startsWith s p = prefix p s"

text \<open>
  \<^verbatim>\<open>s.replace(pat, rep)\<close> with a string pattern: the first occurrence of \<open>pat\<close>
  in \<open>s\<close>, wherever it stands, is replaced; a string without an occurrence is returned
  as it is.
\<close>

fun replace :: "jsstring \<Rightarrow> jsstring \<Rightarrow> jsstring \<Rightarrow> jsstring" where
  "replace [] pat rep = (if pat = [] then rep else [])"
| "replace (c # cs) pat rep =
     (if prefix pat (c # cs) then rep @ drop (length pat) (c # cs)
      else c # replace cs pat rep)"

subsection \<open>content.js: the keyword filter of the study mode\<close>

definition STUDY_KEYWORDS :: "jsstring list" where
  "STUDY_KEYWORDS =
  [js ''lecture series'', js ''class recording'', js ''course material'', js ''syllabus'',
   js ''curriculum'', js ''academic lecture'', js ''concept explanation'', js ''theory'',
   js ''numericals'', js ''problem solving'', js ''worked examples'',
   js ''solutions explained'', js ''proof'', js ''derivation'', js ''formula'',
   js ''equations'', js ''lab experiment'', js ''practical session'', js ''simulation'',
   js ''case study'', js ''research methodology'', js ''data interpretation'',
   js ''statistical analysis'', js ''regression'', js ''classification'', js ''probability'',
   js ''bayes theorem'', js ''linear algebra'', js ''matrix'', js ''vector'',
   js ''calculus'', js ''integration'', js ''differentiation'', js ''code walkthrough'',
   js ''live coding'', js ''debugging'', js ''error fixing'', js ''stack trace'',
   js ''complexity analysis'', js ''time complexity'', js ''space complexity'',
   js ''big o notation'', js ''interview preparation'', js ''university lecture'',
   js ''college lecture'', js ''nptel lecture'', js ''iit lecture'', js ''mit lecture'',
   js ''stanford lecture'', js ''harvard lecture'', js ''semester exam'',
   js ''internal assessment'', js ''final exam review'', js ''exam solutions'',
   js ''exam discussion'', js ''tutorial'', js ''lecture'', js ''course'', js ''class'',
   js ''learn'', js ''education'', js ''educational'', js ''lesson'', js ''training'',
   js ''workshop'', js ''seminar'', js ''webinar'', js ''guide'', js ''instruction'',
   js ''how to'', js ''step by step'', js ''beginners guide'', js ''for beginners'',
   js ''introduction to'', js ''crash course'', js ''full course'', js ''complete course'',
   js ''masterclass'', js ''online course'', js ''math'', js ''mathematics'', js ''algebra'',
   js ''calculus'', js ''geometry'', js ''trigonometry'', js ''statistics'', js ''physics'',
   js ''chemistry'', js ''biology'', js ''science'', js ''geography'', js ''history'',
   js ''economics'', js ''psychology'', js ''sociology'', js ''philosophy'',
   js ''literature'', js ''linguistics'', js ''grammar'', js ''vocabulary'',
   js ''language learning'', js ''foreign language'', js ''programming'', js ''coding'',
   js ''software'', js ''development'', js ''computer science'', js ''cs'', js ''python'',
   js ''java'', js ''javascript'', js ''typescript'', js ''c++'', js ''c#'', js ''php'',
   js ''ruby'', js ''go'', js ''rust'', js ''html'', js ''css'', js ''react'',
   js ''angular'', js ''vue'', js ''node.js'', js ''express'', js ''django'', js ''flask'',
   js ''database'', js ''sql'', js ''mongodb'', js ''mysql'', js ''postgresql'',
   js ''algorithm'', js ''data structure'', js ''data structures'', js ''oop'',
   js ''object oriented'', js ''machine learning'', js ''ml'',
   js ''artificial intelligence'', js ''ai'', js ''deep learning'', js ''neural network'',
   js ''data science'', js ''data analysis'', js ''big data'', js ''analytics'',
   js ''cybersecurity'', js ''network security'', js ''information security'',
   js ''web development'', js ''frontend'', js ''backend'', js ''full stack'',
   js ''mobile development'', js ''devops'', js ''cloud'', js ''aws'', js ''azure'',
   js ''google cloud'', js ''docker'', js ''kubernetes'', js ''engineering'',
   js ''mechanical'', js ''civil'', js ''electrical'', js ''electronics'', js ''robotics'',
   js ''automation'', js ''iot'', js ''internet of things'', js ''embedded'', js ''arduino'',
   js ''raspberry pi'', js ''3d printing'', js ''cad'', js ''design'', js ''architecture'',
   js ''business'', js ''management'', js ''leadership'', js ''marketing'',
   js ''digital marketing'', js ''seo'', js ''finance'', js ''accounting'',
   js ''investment'', js ''stock market'', js ''trading'', js ''cryptocurrency'',
   js ''entrepreneurship'', js ''startup'', js ''project management'', js ''agile'',
   js ''scrum'', js ''career'', js ''job interview'', js ''resume'', js ''cv'',
   js ''public speaking'', js ''communication'', js ''exam'', js ''test'', js ''quiz'',
   js ''preparation'', js ''competitive exam'', js ''entrance exam'', js ''certification'',
   js ''certificate'', js ''degree'', js ''diploma'', js ''mooc'', js ''udemy'',
   js ''coursera'', js ''edx'', js ''khan academy'', js ''skillshare'',
   js ''linkedin learning'', js ''mit opencourseware'', js ''stanford online'',
   js ''harvard online'', js ''nptel'', js ''swayam'', js ''school'', js ''high school'',
   js ''secondary school'', js ''college'', js ''university'', js ''undergraduate'',
   js ''graduate'', js ''postgraduate'', js ''phd'', js ''research'', js ''thesis'',
   js ''dissertation'', js ''paper'', js ''publication'', js ''journal'',
   js ''quantum physics'', js ''astronomy'', js ''astrophysics'', js ''cosmology'',
   js ''genetics'', js ''evolution'', js ''microbiology'', js ''organic chemistry'',
   js ''inorganic chemistry'', js ''physical chemistry'', js ''thermodynamics'',
   js ''electromagnetism'', js ''optics'', js ''programming interview'',
   js ''coding interview'', js ''leetcode'', js ''hackerrank'', js ''system design'',
   js ''design pattern'', js ''software architecture'', js ''jee'', js ''neet'', js ''gate'',
   js ''upsc'', js ''ias'', js ''ips'', js ''cat'', js ''mat'', js ''xat'', js ''cbse'',
   js ''icse'', js ''ncert'', js ''board exam'', js ''competitive'', js ''iit jee'',
   js ''medical entrance'', js ''engineering entrance'', js ''study with me'',
   js ''pomodoro'', js ''study technique'', js ''study tips'', js ''study method'',
   js ''note taking'', js ''mind mapping'', js ''flashcards'', js ''anki'',
   js ''spaced repetition'', js ''active recall'', js ''feynman technique'',
   js ''pomodoro technique'', js ''english'', js ''spanish'', js ''french'', js ''german'',
   js ''chinese'', js ''japanese'', js ''korean'', js ''hindi'', js ''sanskrit'',
   js ''tamil'', js ''telugu'', js ''malayalam'', js ''kannada'', js ''bengali'',
   js ''marathi'', js ''gujarati'', js ''punjabi'', js ''urdu'']"

definition BLOCK_KEYWORDS :: "jsstring list" where
  "BLOCK_KEYWORDS =
  [js ''song'', js ''songs'', js ''music'', js ''Mix'', js ''Shorts'', js ''shorts'',
   js ''musical'', js ''entertainment'', js ''movie'', js ''film'', js ''cinema'',
   js ''game'', js ''games'', js ''gaming'', js ''playthrough'', js ''walkthrough'',
   js ''gameplay'', js ''vlog'', js ''vlogging'', js ''daily vlog'', js ''lifestyle'',
   js ''fashion'', js ''beauty'', js ''makeup'', js ''comedy'', js ''funny'', js ''joke'',
   js ''prank'', js ''challenge'', js ''memes'', js ''meme'', js ''celebrities'',
   js ''celebrity'', js ''gossip'', js ''rumor'', js ''scandal'', js ''sports'',
   js ''football'', js ''soccer'', js ''basketball'', js ''cricket'', js ''tennis'',
   js ''golf'', js ''cooking'', js ''recipe'', js ''food'', js ''restaurant'', js ''travel'',
   js ''vacation'', js ''holiday'', js ''shopping'', js ''haul'', js ''unboxing'',
   js ''review'', js ''product review'', js ''asmr'', js ''satisfying'', js ''relaxing'',
   js ''meditation'', js ''sleep'', js ''anime'', js ''manga'', js ''cartoon'',
   js ''animation'', js ''netflix'', js ''hbo'', js ''disney'', js ''party'',
   js ''nightlife'', js ''club'', js ''dance'', js ''dancing'', js ''dating'',
   js ''relationship'', js ''love'', js ''romance'', js ''horror'', js ''scary'',
   js ''thriller'', js ''action'', js ''adventure'', js ''trailer'', js ''teaser'',
   js ''preview'', js ''podcast'', js ''talk show'', js ''interview'', js ''short film'',
   js ''documentary'', js ''series'', js ''fortnite'', js ''minecraft'', js ''roblox'',
   js ''valorant'', js ''cod'', js ''call of duty'', js ''stream'', js ''livestream'',
   js ''twitch'', js ''tiktok'', js ''reels'', js ''shorts'', js ''compilation'',
   js ''highlights'', js ''motivation'', js ''inspirational'', js ''self-help'',
   js ''workout'', js ''fitness'', js ''gym'', js ''exercise'', js ''trending'',
   js ''must watch'', js ''you won'' @ [0x2019] @ js ''t believe'', js ''shocking'',
   js ''epic'', js ''crazy'', js ''insane'', js ''watch till end'', js ''emotional'',
   js ''reaction video'', js ''roasting'', js ''exposed'', js ''instagram'', js ''snapchat'',
   js ''whatsapp'', js ''influencer'', js ''creator'', js ''yoga'']"

text \<open>
  The loop \<^verbatim>\<open>for (const keyword of KEYWORDS)\<close> of both keyword tests: it returns
  \<^verbatim>\<open>true\<close> at the first keyword whose lower-case form occurs in the lower-case text,
  and \<^verbatim>\<open>false\<close> after the last keyword. The first argument is the platform's
  \<^verbatim>\<open>toLowerCase\<close>.
\<close>

fun keywordLoop :: "(jsstring \<Rightarrow> jsstring) \<Rightarrow> jsstring list \<Rightarrow> jsstring \<Rightarrow> bool" where
  "keywordLoop toLowerCase [] lowerText = False"
| "keywordLoop toLowerCase (keyword # keywords) lowerText =
     (if str_includes lowerText (toLowerCase keyword) then True
      else keywordLoop toLowerCase keywords lowerText)"

text \<open>
  The guard \<^verbatim>\<open>!text || typeof text !== 'string' || text.trim() === ''\<close>: the
  argument is a string here, so it is the empty string or one of white space only.
\<close>

definition hasStudyKeyword :: "(jsstring \<Rightarrow> jsstring) \<Rightarrow> jsstring \<Rightarrow> bool" where
  "hasStudyKeyword toLowerCase text =
     (if text = [] \<or> trim text = [] then False
      else keywordLoop toLowerCase STUDY_KEYWORDS (toLowerCase text))"

definition hasBlockKeyword :: "(jsstring \<Rightarrow> jsstring) \<Rightarrow> jsstring \<Rightarrow> bool" where
  "hasBlockKeyword toLowerCase text =
     (if text = [] \<or> trim text = [] then False
      else keywordLoop toLowerCase BLOCK_KEYWORDS (toLowerCase text))"

text \<open>
  \<^verbatim>\<open>shouldPlayVideo\<close>, on the title and the description that \<^verbatim>\<open>getVideoTitle\<close>
  and \<^verbatim>\<open>getVideoDescription\<close> read from the video element. \<open>False\<close> blocks the
  video, \<open>True\<close> lets it play.
\<close>

definition shouldPlayVideo :: "(jsstring \<Rightarrow> jsstring) \<Rightarrow> jsstring \<Rightarrow> jsstring \<Rightarrow> bool" where
  "shouldPlayVideo toLowerCase title description =
     (if hasBlockKeyword toLowerCase title \<or> hasBlockKeyword toLowerCase description then False
      else (let hasTitleKeyword = hasStudyKeyword toLowerCase title;
                hasDescriptionKeyword = hasStudyKeyword toLowerCase description
            in hasTitleKeyword \<or> hasDescriptionKeyword))"

subsection \<open>content.js: form analysis\<close>

text \<open>
  \<^verbatim>\<open>window.location\<close>, as far as the code reads it.
\<close>

record location =
  hostname :: jsstring
  href :: jsstring

text \<open>
  An element below a form: its tag name in lower case and the properties
  \<^verbatim>\<open>type\<close>, \<^verbatim>\<open>name\<close> and \<^verbatim>\<open>id\<close> (the last one written \<open>id'\<close>). A form is
  its \<^verbatim>\<open>action\<close> and its descendant elements in document order.
\<close>

record element =
  tagName :: jsstring
  type :: jsstring
  name :: jsstring
  id' :: jsstring

record form =
  action :: jsstring
  elements :: "element list"

text \<open>\<^verbatim>\<open>form.querySelectorAll(sel)\<close> for a selector that is a tag name.\<close>

definition querySelectorAll :: "form \<Rightarrow> jsstring \<Rightarrow> element list" where
  "querySelectorAll f sel = filter (\<lambda>e. tagName e = sel) (elements f)"

text \<open>
  \<^verbatim>\<open>getDomain\<close>. The argument \<open>urlHostname\<close> stands for the platform's
  \<^verbatim>\<open>new URL(url).hostname\<close>: \<open>None\<close> when the constructor throws, which the
  \<^verbatim>\<open>catch\<close> branch answers with the host name of the page.
\<close>

definition getDomain :: "(jsstring \<Rightarrow> jsstring option) \<Rightarrow> location \<Rightarrow> jsstring \<Rightarrow> jsstring" where
  "getDomain urlHostname loc u =
     (if u = [] \<or> u = js ''#'' then hostname loc
      else if startsWith u (js ''/'') \<or> \<not> str_includes u (js ''://'') then hostname loc
      else (case urlHostname u of Some h \<Rightarrow> h | None \<Rightarrow> hostname loc))"

definition cardKeywords :: "jsstring list" where
  "cardKeywords =
     [js ''card'', js ''credit'', js ''debit'', js ''cvv'', js ''cvc'', js ''expiry'']"

text \<open>\<^verbatim>\<open>isSensitiveInput\<close>; the first argument is the platform's \<^verbatim>\<open>toLowerCase\<close>.\<close>

definition isSensitiveInput :: "(jsstring \<Rightarrow> jsstring) \<Rightarrow> element \<Rightarrow> bool" where
  "isSensitiveInput toLowerCase input =
     (let type_l = toLowerCase (type input);
          name_l = toLowerCase (name input);
          id_l = toLowerCase (id' input)
      in if type_l = js ''password'' then True
         else if type_l = js ''email'' then True
         else (let isCreditCard =
                     list_ex (\<lambda>keyword. str_includes name_l keyword \<or> str_includes id_l keyword)
                       cardKeywords
               in isCreditCard))"

record formAnalysis =
  form :: form
  formDomain :: jsstring
  currentDomain :: jsstring
  sensitiveInputs :: "element list"
  isSuspicious :: bool

definition analyzeForm ::
    "(jsstring \<Rightarrow> jsstring) \<Rightarrow> (jsstring \<Rightarrow> jsstring option) \<Rightarrow> location \<Rightarrow> form \<Rightarrow>
     formAnalysis" where
  "analyzeForm toLowerCase urlHostname loc f =
     (let formAction = action f;
          formDomain = getDomain urlHostname loc formAction;
          currentDomain = hostname loc;
          inputs = querySelectorAll f (js ''input'');
          sensitiveInputs = filter (isSensitiveInput toLowerCase) inputs;
          isSuspicious = (length sensitiveInputs > 0 \<and> formDomain \<noteq> currentDomain)
      in \<lparr>form = f, formDomain = formDomain, currentDomain = currentDomain,
          sensitiveInputs = sensitiveInputs, isSuspicious = isSuspicious\<rparr>)"

subsection \<open>content.js: shortener detection\<close>

definition URL_SHORTENERS :: "jsstring list" where
  "URL_SHORTENERS =
  [js ''bit.ly'', js ''tinyurl.com'', js ''goo.gl'', js ''ow.ly'', js ''short.link'',
   js ''t.co'', js ''buff.ly'', js ''adf.ly'', js ''is.gd'', js ''cli.gs'', js ''tiny.cc'',
   js ''u.to'', js ''j.mp'', js ''tr.im'', js ''soo.gd'', js ''rebrand.ly'', js ''bl.ink'',
   js ''shorturl.at'', js ''cutt.ly'', js ''s.id'', js ''bitly.com'', js ''shorturl.com'',
   js ''miniurl.com'', js ''snip.ly'']"

text \<open>
  The objects of the shortener detection share the fields \<^verbatim>\<open>domain\<close> and
  \<^verbatim>\<open>url\<close> (written \<open>url'\<close>): the result of \<^verbatim>\<open>detectUrlShortener\<close> adds
  \<^verbatim>\<open>isShortener\<close>, an entry of \<^verbatim>\<open>shortenedLinks\<close> adds \<^verbatim>\<open>text\<close> (written
  \<open>text'\<close>).
\<close>

record domainUrl =
  domain :: jsstring
  url' :: jsstring

record shortenerResult = domainUrl +
  isShortener :: bool

record shortenedLink = domainUrl +
  text' :: jsstring

text \<open>
  A link of the page, \<^verbatim>\<open>a[href]\<close>: its resolved \<^verbatim>\<open>href\<close> (written \<open>href'\<close>)
  and its text.
\<close>

record anchor =
  href' :: jsstring
  textContent :: jsstring

record shortenerData =
  currentUrl :: shortenerResult
  linksFound :: "shortenedLink list"

definition detectUrlShortener :: "location \<Rightarrow> shortenerResult" where
  "detectUrlShortener loc =
     (let currentDomain = replace (hostname loc) (js ''www.'') [];
          isShortener = list_ex (\<lambda>shortener. currentDomain = shortener) URL_SHORTENERS
      in \<lparr>domain = currentDomain, url' = href loc, isShortener = isShortener\<rparr>)"

text \<open>
  The body of \<^verbatim>\<open>links.forEach\<close> in the \<^verbatim>\<open>analyzeShortener\<close> branch of the
  message listener, as a step on the array \<^verbatim>\<open>shortenedLinks\<close>: a link whose
  \<^verbatim>\<open>href\<close> the \<^verbatim>\<open>URL\<close> constructor refuses is skipped by the \<^verbatim>\<open>catch\<close>.
  \<^verbatim>\<open>substring(0, 50)\<close> keeps the first 50 code units.
\<close>

definition pushIfShortened ::
    "(jsstring \<Rightarrow> jsstring option) \<Rightarrow> shortenedLink list \<Rightarrow> anchor \<Rightarrow> shortenedLink list" where
  "pushIfShortened urlHostname shortenedLinks link =
     (let h = href' link
      in case urlHostname h of
           None \<Rightarrow> shortenedLinks
         | Some host \<Rightarrow>
             (let linkDomain = replace host (js ''www.'') [];
                  isShortened = list_ex (\<lambda>shortener. linkDomain = shortener) URL_SHORTENERS
              in if isShortened
                 then shortenedLinks @
                   [\<lparr>domain = linkDomain, url' = h,
                     text' = take 50 (trim (textContent link))\<rparr>]
                 else shortenedLinks))"

definition analyzeShortener ::
    "(jsstring \<Rightarrow> jsstring option) \<Rightarrow> location \<Rightarrow> anchor list \<Rightarrow> shortenerData" where
  "analyzeShortener urlHostname loc links =
     (let shortenerResult = detectUrlShortener loc;
          shortenedLinks = foldl (pushIfShortened urlHostname) [] links
      in \<lparr>currentUrl = shortenerResult, linksFound = shortenedLinks\<rparr>)"

text \<open>
  The normalisation of a host name as the specification words it, for comparison with
  the code: a leading \<open>www.\<close> is stripped, nothing else.
\<close>

definition stripLeadingWww :: "jsstring \<Rightarrow> jsstring" where
  "stripLeadingWww h = (if prefix (js ''www.'') h then drop 4 h else h)"

subsection \<open>A lower-casing for the examples\<close>

text \<open>
  The examples below need a value for the platform's \<^verbatim>\<open>toLowerCase\<close>. This one
  agrees with \<^verbatim>\<open>String.prototype.toLowerCase\<close> on every string made of ASCII
  characters, the Kelvin sign U+212A (lower case \<open>k\<close>), the dotted capital I U+0130
  (lower case \<open>i\<close> followed by U+0307) and characters that have no case.
\<close>

definition sampleLowerUnit :: "nat \<Rightarrow> jsstring" where
  "sampleLowerUnit c =
     (if 0x41 \<le> c \<and> c \<le> 0x5A then [c + 0x20]
      else if c = 0x212A then [0x6B]
      else if c = 0x130 then [0x69, 0x307]
      else [c])"

definition sampleToLowerCase :: "jsstring \<Rightarrow> jsstring" where
  "sampleToLowerCase s = concat (map sampleLowerUnit s)"

subsection \<open>Properties of the reputation check\<close>

lemma getRiskLabel_0: "getRiskLabel 0 = ''Safe''"
  by (simp add: getRiskLabel_def)

lemma getRiskLabel_40: "getRiskLabel 40 = ''Suspicious''"
  by (simp add: getRiskLabel_def)

lemma checkReputation_Thrown:
  "checkReputation (Thrown message) u =
     Success \<lparr>status = ''Error'', threatType = ''Unknown'', riskScore = 0, url = u,
              error = orNull (Some message), riskLabel = ''Safe''\<rparr>"
  by (simp add: checkReputation_def checkUrlReputation_def getRiskLabel_0 Let_def)

text \<open>
  C5. The label of an integer score: \<open>Safe\<close> exactly on 0..30, \<open>Suspicious\<close> exactly on
  31..60, \<open>High Risk\<close> exactly on 61..100 and \<open>Unknown\<close> exactly outside 0..100; the
  four classes are disjoint and cover every integer, and the boundary scores of the
  specification get the labels it lists.
\<close>

theorem getRiskLabel_partition:
  "(getRiskLabel s = ''Safe'') = (0 \<le> s \<and> s \<le> 30) \<and>
   (getRiskLabel s = ''Suspicious'') = (31 \<le> s \<and> s \<le> 60) \<and>
   (getRiskLabel s = ''High Risk'') = (61 \<le> s \<and> s \<le> 100) \<and>
   (getRiskLabel s = ''Unknown'') = (s < 0 \<or> 100 < s) \<and>
   getRiskLabel 0 = ''Safe'' \<and> getRiskLabel 30 = ''Safe'' \<and>
   getRiskLabel 31 = ''Suspicious'' \<and> getRiskLabel 60 = ''Suspicious'' \<and>
   getRiskLabel 61 = ''High Risk'' \<and> getRiskLabel 100 = ''High Risk'' \<and>
   getRiskLabel (- 1) = ''Unknown'' \<and> getRiskLabel 101 = ''Unknown''"
  unfolding getRiskLabel_def by (auto split: if_splits)

text \<open>
  C6. When the answer holds at least one match, the reply carries the score 40 and the
  label \<open>Suspicious\<close>, whatever the threat types of the matches are; when it holds no
  match (no \<^verbatim>\<open>matches\<close> field, or an empty array), the reply carries the score 0
  and the label \<open>Safe\<close>.
\<close>

theorem checkReputation_verdict:
  "(matches d = Some (m # ms) \<longrightarrow>
      (\<exists>r. checkReputation (Parsed d) u = Success r \<and>
           riskScore r = 40 \<and> riskLabel r = ''Suspicious'')) \<and>
   (matches d = None \<or> matches d = Some [] \<longrightarrow>
      (\<exists>r. checkReputation (Parsed d) u = Success r \<and>
           riskScore r = 0 \<and> riskLabel r = ''Safe''))"
  by (auto simp: checkReputation_def checkUrlReputation_def getRiskLabel_0 getRiskLabel_40
      Let_def)

theorem checkReputation_verdict_witness:
  "(\<exists>r. checkReputation (Parsed \<lparr>matches = Some [''MALWARE'']\<rparr>) ''http://a.test/'' = Success r \<and>
       riskScore r = 40 \<and> riskLabel r = ''Suspicious'') \<and>
   (\<exists>r. checkReputation (Parsed \<lparr>matches = Some [''SOCIAL_ENGINEERING'', ''MALWARE'']\<rparr>)
          ''http://a.test/'' = Success r \<and>
       riskScore r = 40 \<and> riskLabel r = ''Suspicious'') \<and>
   (\<exists>r. checkReputation (Parsed \<lparr>matches = None\<rparr>) ''http://a.test/'' = Success r \<and>
       riskScore r = 0 \<and> riskLabel r = ''Safe'') \<and>
   (\<exists>r. checkReputation (Parsed \<lparr>matches = Some []\<rparr>) ''http://a.test/'' = Success r \<and>
       riskScore r = 0 \<and> riskLabel r = ''Safe'')"
  using checkReputation_verdict [of "\<lparr>matches = Some [''MALWARE'']\<rparr>" "''MALWARE''" "[]"
      "''http://a.test/''"]
    checkReputation_verdict [of "\<lparr>matches = Some [''SOCIAL_ENGINEERING'', ''MALWARE'']\<rparr>"
      "''SOCIAL_ENGINEERING''" "[''MALWARE'']" "''http://a.test/''"]
    checkReputation_verdict [of "\<lparr>matches = None\<rparr>" "''x''" "[]" "''http://a.test/''"]
    checkReputation_verdict [of "\<lparr>matches = Some []\<rparr>" "''x''" "[]" "''http://a.test/''"]
  by simp

text \<open>
  C1. A lookup that fails, here with the message \<open>Failed to fetch\<close>, is answered with
  the status \<open>Error\<close>, the threat type \<open>Unknown\<close>, the score 0 and the message, and
  with the risk label that \<^verbatim>\<open>getRiskLabel\<close> gives the score 0, which is \<open>Safe\<close> and
  not \<open>Unknown\<close>.
\<close>

theorem checkReputation_failed_lookup:
  "checkReputation (Thrown ''Failed to fetch'') ''https://example.com/'' =
     Success \<lparr>status = ''Error'', threatType = ''Unknown'', riskScore = 0,
              url = ''https://example.com/'', error = Some ''Failed to fetch'',
              riskLabel = ''Safe''\<rparr> \<and>
   ''Safe'' \<noteq> ''Unknown''"
  by (simp add: checkReputation_Thrown orNull_def)

subsection \<open>Facts about the string operations\<close>

text \<open>The code units of the ASCII characters, for evaluation.\<close>

lemma of_char_ascii:
  "of_char CHR '' '' = (32::nat)" "of_char CHR ''!'' = (33::nat)"
  "of_char CHR ''#'' = (35::nat)" "of_char CHR ''$'' = (36::nat)"
  "of_char CHR ''%'' = (37::nat)" "of_char CHR ''&'' = (38::nat)"
  "of_char CHR ''('' = (40::nat)" "of_char CHR '')'' = (41::nat)"
  "of_char CHR ''*'' = (42::nat)" "of_char CHR ''+'' = (43::nat)"
  "of_char CHR '','' = (44::nat)" "of_char CHR ''-'' = (45::nat)"
  "of_char CHR ''.'' = (46::nat)" "of_char CHR ''/'' = (47::nat)"
  "of_char CHR ''0'' = (48::nat)" "of_char CHR ''1'' = (49::nat)"
  "of_char CHR ''2'' = (50::nat)" "of_char CHR ''3'' = (51::nat)"
  "of_char CHR ''4'' = (52::nat)" "of_char CHR ''5'' = (53::nat)"
  "of_char CHR ''6'' = (54::nat)" "of_char CHR ''7'' = (55::nat)"
  "of_char CHR ''8'' = (56::nat)" "of_char CHR ''9'' = (57::nat)"
  "of_char CHR '':'' = (58::nat)" "of_char CHR '';'' = (59::nat)"
  "of_char CHR ''<'' = (60::nat)" "of_char CHR ''='' = (61::nat)"
  "of_char CHR ''>'' = (62::nat)" "of_char CHR ''?'' = (63::nat)"
  "of_char CHR ''@'' = (64::nat)" "of_char CHR ''A'' = (65::nat)"
  "of_char CHR ''B'' = (66::nat)" "of_char CHR ''C'' = (67::nat)"
  "of_char CHR ''D'' = (68::nat)" "of_char CHR ''E'' = (69::nat)"
  "of_char CHR ''F'' = (70::nat)" "of_char CHR ''G'' = (71::nat)"
  "of_char CHR ''H'' = (72::nat)" "of_char CHR ''I'' = (73::nat)"
  "of_char CHR ''J'' = (74::nat)" "of_char CHR ''K'' = (75::nat)"
  "of_char CHR ''L'' = (76::nat)" "of_char CHR ''M'' = (77::nat)"
  "of_char CHR ''N'' = (78::nat)" "of_char CHR ''O'' = (79::nat)"
  "of_char CHR ''P'' = (80::nat)" "of_char CHR ''Q'' = (81::nat)"
  "of_char CHR ''R'' = (82::nat)" "of_char CHR ''S'' = (83::nat)"
  "of_char CHR ''T'' = (84::nat)" "of_char CHR ''U'' = (85::nat)"
  "of_char CHR ''V'' = (86::nat)" "of_char CHR ''W'' = (87::nat)"
  "of_char CHR ''X'' = (88::nat)" "of_char CHR ''Y'' = (89::nat)"
  "of_char CHR ''Z'' = (90::nat)" "of_char CHR ''['' = (91::nat)"
  "of_char CHR '']'' = (93::nat)" "of_char CHR ''^'' = (94::nat)"
  "of_char CHR ''_'' = (95::nat)" "of_char CHR ''`'' = (96::nat)"
  "of_char CHR ''a'' = (97::nat)" "of_char CHR ''b'' = (98::nat)"
  "of_char CHR ''c'' = (99::nat)" "of_char CHR ''d'' = (100::nat)"
  "of_char CHR ''e'' = (101::nat)" "of_char CHR ''f'' = (102::nat)"
  "of_char CHR ''g'' = (103::nat)" "of_char CHR ''h'' = (104::nat)"
  "of_char CHR ''i'' = (105::nat)" "of_char CHR ''j'' = (106::nat)"
  "of_char CHR ''k'' = (107::nat)" "of_char CHR ''l'' = (108::nat)"
  "of_char CHR ''m'' = (109::nat)" "of_char CHR ''n'' = (110::nat)"
  "of_char CHR ''o'' = (111::nat)" "of_char CHR ''p'' = (112::nat)"
  "of_char CHR ''q'' = (113::nat)" "of_char CHR ''r'' = (114::nat)"
  "of_char CHR ''s'' = (115::nat)" "of_char CHR ''t'' = (116::nat)"
  "of_char CHR ''u'' = (117::nat)" "of_char CHR ''v'' = (118::nat)"
  "of_char CHR ''w'' = (119::nat)" "of_char CHR ''x'' = (120::nat)"
  "of_char CHR ''y'' = (121::nat)" "of_char CHR ''z'' = (122::nat)"
  "of_char CHR ''{'' = (123::nat)" "of_char CHR ''|'' = (124::nat)"
  "of_char CHR ''}'' = (125::nat)" "of_char CHR ''~'' = (126::nat)"
  by simp_all

text \<open>The rules that evaluate the string operations on literals.\<close>

lemmas js_eval =
  js_def sampleToLowerCase_def sampleLowerUnit_def of_char_ascii list.map concat.simps
  append.simps str_includes.simps Cons_prefix_Cons Nil_prefix prefix_Nil list.distinct
  list.inject list.pred_inject if_True if_False simp_thms rel_simps arith_simps

lemma str_includes_sublist: "str_includes s k \<longleftrightarrow> sublist k s"
  by (induction s) (auto simp: sublist_Cons_right)

lemma trim_Nil_iff: "trim s = [] \<longleftrightarrow> (\<forall>c\<in>set s. isWhitespace c)"
proof
  assume t: "trim s = []"
  show "\<forall>c\<in>set s. isWhitespace c"
  proof (cases "dropWhile isWhitespace s")
    case Nil
    then show ?thesis by (simp add: dropWhile_eq_Nil_conv)
  next
    case (Cons x xs)
    then have "\<not> isWhitespace x"
      using hd_dropWhile [of isWhitespace s] by simp
    moreover from t Cons have "\<forall>c\<in>set (x # xs). isWhitespace c"
      by (simp add: trim_def)
    ultimately show ?thesis by simp
  qed
next
  assume "\<forall>c\<in>set s. isWhitespace c"
  then show "trim s = []"
    by (auto simp: trim_def dest: set_dropWhileD)
qed

text \<open>
  The sample lower-casing turns white space into white space and everything else into
  something else, as the platform's does.
\<close>

lemma sampleLowerUnit_whitespace:
  "(\<forall>d\<in>set (sampleLowerUnit c). isWhitespace d) = isWhitespace c"
  by (auto simp: sampleLowerUnit_def isWhitespace_def)

lemma sampleToLowerCase_whitespace:
  "(\<forall>c\<in>set (sampleToLowerCase s). isWhitespace c) = (\<forall>c\<in>set s. isWhitespace c)"
  using sampleLowerUnit_whitespace by (auto simp: sampleToLowerCase_def)

lemma sampleToLowerCase_append:
  "sampleToLowerCase (s @ t) = sampleToLowerCase s @ sampleToLowerCase t"
  by (simp add: sampleToLowerCase_def)

subsection \<open>Properties of the keyword filter\<close>

lemma keywordLoop_iff:
  "keywordLoop lc ks t \<longleftrightarrow> (\<exists>k\<in>set ks. sublist (lc k) t)"
  by (induction ks) (auto simp: str_includes_sublist)

lemma BLOCK_KEYWORDS_heads:
  "list_all (\<lambda>k. k \<noteq> [] \<and> \<not> isWhitespace (hd k)) BLOCK_KEYWORDS"
  by (simp add: BLOCK_KEYWORDS_def js_def isWhitespace_def)

lemma STUDY_KEYWORDS_heads:
  "list_all (\<lambda>k. k \<noteq> [] \<and> \<not> isWhitespace (hd k)) STUDY_KEYWORDS"
  by (simp add: STUDY_KEYWORDS_def js_def isWhitespace_def)

lemma keywords_visible:
  assumes "k \<in> set BLOCK_KEYWORDS \<union> set STUDY_KEYWORDS"
  shows "\<not> (\<forall>c\<in>set k. isWhitespace c)"
proof -
  from assms BLOCK_KEYWORDS_heads STUDY_KEYWORDS_heads
  have "k \<noteq> []" and "\<not> isWhitespace (hd k)"
    by (auto simp: list_all_iff)
  then show ?thesis by (cases k) auto
qed

text \<open>
  Under a lower-casing that turns exactly the strings of white space into strings of
  white space, a text of white space only holds the lower-case form of no keyword.
\<close>

lemma whitespace_no_keyword:
  assumes lc: "\<forall>s. (\<forall>c\<in>set (lc s). isWhitespace c) = (\<forall>c\<in>set s. isWhitespace c)"
    and ws: "\<forall>c\<in>set text. isWhitespace c"
    and k: "k \<in> set BLOCK_KEYWORDS \<union> set STUDY_KEYWORDS"
  shows "\<not> sublist (lc k) (lc text)"
proof
  assume "sublist (lc k) (lc text)"
  then have "set (lc k) \<subseteq> set (lc text)" by (rule set_mono_sublist)
  moreover from lc ws have "\<forall>c\<in>set (lc text). isWhitespace c" by simp
  ultimately have "\<forall>c\<in>set (lc k). isWhitespace c" by blast
  with lc have "\<forall>c\<in>set k. isWhitespace c" by simp
  with keywords_visible [OF k] show False by simp
qed

text \<open>
  Then the guard of \<^verbatim>\<open>hasBlockKeyword\<close> changes nothing: the function holds exactly
  when the lower-case form of some blocking keyword is a substring of the lower-case
  text.
\<close>

lemma hasBlockKeyword_iff:
  assumes lc: "\<forall>s. (\<forall>c\<in>set (lc s). isWhitespace c) = (\<forall>c\<in>set s. isWhitespace c)"
  shows "hasBlockKeyword lc text \<longleftrightarrow>
     (\<exists>k\<in>set BLOCK_KEYWORDS. sublist (lc k) (lc text))"
proof (cases "text = [] \<or> trim text = []")
  case True
  then have ws: "\<forall>c\<in>set text. isWhitespace c"
    by (auto simp: trim_Nil_iff)
  have "\<not> sublist (lc k) (lc text)" if "k \<in> set BLOCK_KEYWORDS" for k
    using whitespace_no_keyword [OF lc ws] that by simp
  with True show ?thesis by (auto simp: hasBlockKeyword_def)
next
  case False
  then show ?thesis by (simp add: hasBlockKeyword_def keywordLoop_iff)
qed

lemma hasBlockKeyword_imp:
  "hasBlockKeyword lc text \<Longrightarrow> \<exists>k\<in>set BLOCK_KEYWORDS. sublist (lc k) (lc text)"
  by (simp add: hasBlockKeyword_def keywordLoop_iff split: if_splits)

lemma hasStudyKeyword_imp:
  "hasStudyKeyword lc text \<Longrightarrow> \<exists>k\<in>set STUDY_KEYWORDS. sublist (lc k) (lc text)"
  by (simp add: hasStudyKeyword_def keywordLoop_iff split: if_splits)

lemma hasStudyKeyword_intro:
  assumes "k \<in> set STUDY_KEYWORDS"
    and "sublist (lc k) (lc text)"
    and "c \<in> set text \<and> \<not> isWhitespace c"
  shows "hasStudyKeyword lc text"
proof -
  from assms(3) have "text \<noteq> []" and "trim text \<noteq> []"
    by (auto simp: trim_Nil_iff)
  with assms(1,2) show ?thesis
    by (auto simp: hasStudyKeyword_def keywordLoop_iff)
qed

lemma whitespace_not_matched:
  assumes "\<forall>c\<in>set text. isWhitespace c"
  shows "\<not> hasBlockKeyword lc text" and "\<not> hasStudyKeyword lc text"
proof -
  from assms have "text = [] \<or> trim text = []" by (simp add: trim_Nil_iff)
  then show "\<not> hasBlockKeyword lc text" and "\<not> hasStudyKeyword lc text"
    by (auto simp: hasBlockKeyword_def hasStudyKeyword_def)
qed

text \<open>
  C3. Let \<open>toLowerCase\<close> be the platform's lower-casing; of it only this is used, that
  its result is of white space only exactly when its argument is. When the lower-case
  form of some blocking keyword is a substring of the lower-case title or of the
  lower-case description, the video is blocked: \<^verbatim>\<open>shouldPlayVideo\<close> returns
  \<^verbatim>\<open>false\<close>. Nothing is assumed about the study keywords, so they may occur too.
\<close>

theorem shouldPlayVideo_block_precedence:
  assumes "\<forall>s. (\<forall>c\<in>set (toLowerCase s). isWhitespace c) = (\<forall>c\<in>set s. isWhitespace c)"
    and "\<exists>k\<in>set BLOCK_KEYWORDS.
           sublist (toLowerCase k) (toLowerCase title) \<or>
           sublist (toLowerCase k) (toLowerCase description)"
  shows "shouldPlayVideo toLowerCase title description = False"
proof -
  from assms have
    "hasBlockKeyword toLowerCase title \<or> hasBlockKeyword toLowerCase description"
    by (auto simp: hasBlockKeyword_iff [OF assms(1)])
  then show ?thesis by (auto simp: shouldPlayVideo_def)
qed

theorem shouldPlayVideo_block_precedence_witness:
  "hasStudyKeyword sampleToLowerCase (js ''Linear Algebra Lecture with MUSIC'') \<and>
   shouldPlayVideo sampleToLowerCase (js ''Linear Algebra Lecture with MUSIC'')
     (js ''full course'') = False \<and>
   shouldPlayVideo sampleToLowerCase (js ''full course'')
     (js ''Linear Algebra Lecture with MUSIC'') = False \<and>
   hasStudyKeyword sampleToLowerCase (js ''Lecture JO'' @ [0x212A] @ js ''E'') \<and>
   shouldPlayVideo sampleToLowerCase (js ''Lecture JO'' @ [0x212A] @ js ''E'') [] = False"
proof -
  note lc = sampleToLowerCase_whitespace [THEN allI]
  have m: "js ''music'' \<in> set BLOCK_KEYWORDS" and j: "js ''joke'' \<in> set BLOCK_KEYWORDS"
    by (simp_all add: BLOCK_KEYWORDS_def js_def)
  have l: "js ''lecture'' \<in> set STUDY_KEYWORDS"
    by (simp add: STUDY_KEYWORDS_def js_def)
  have lm: "sampleToLowerCase (js ''music'') = js ''music''"
    and lj: "sampleToLowerCase (js ''joke'') = js ''joke''"
    and ll: "sampleToLowerCase (js ''lecture'') = js ''lecture''"
    by (simp_all add: sampleToLowerCase_def sampleLowerUnit_def js_def)
  have t1: "sampleToLowerCase (js ''Linear Algebra Lecture with MUSIC'') =
      js ''linear algebra '' @ js ''lecture'' @ js '' with '' @ js ''music'' @ []"
    by (simp add: sampleToLowerCase_def sampleLowerUnit_def js_def)
  have t2: "sampleToLowerCase (js ''Lecture JO'' @ [0x212A] @ js ''E'') =
      [] @ js ''lecture'' @ js '' '' @ js ''joke'' @ []"
    by (simp add: sampleToLowerCase_def sampleLowerUnit_def js_def)
  have s1: "sublist (sampleToLowerCase (js ''music''))
      (sampleToLowerCase (js ''Linear Algebra Lecture with MUSIC''))"
    unfolding t1 lm by (simp add: sublist_append)
  have s2: "sublist (sampleToLowerCase (js ''joke''))
      (sampleToLowerCase (js ''Lecture JO'' @ [0x212A] @ js ''E''))"
    unfolding t2 lj by (simp add: sublist_append)
  have s3: "sublist (sampleToLowerCase (js ''lecture''))
      (sampleToLowerCase (js ''Linear Algebra Lecture with MUSIC''))"
    unfolding t1 ll by (simp add: sublist_append)
  have s4: "sublist (sampleToLowerCase (js ''lecture''))
      (sampleToLowerCase (js ''Lecture JO'' @ [0x212A] @ js ''E''))"
    unfolding t2 ll by (simp add: sublist_append)
  have 1: "shouldPlayVideo sampleToLowerCase (js ''Linear Algebra Lecture with MUSIC'')
      (js ''full course'') = False"
    by (rule shouldPlayVideo_block_precedence [OF lc]) (use m s1 in blast)
  have 2: "shouldPlayVideo sampleToLowerCase (js ''full course'')
      (js ''Linear Algebra Lecture with MUSIC'') = False"
    by (rule shouldPlayVideo_block_precedence [OF lc]) (use m s1 in blast)
  have 3: "shouldPlayVideo sampleToLowerCase (js ''Lecture JO'' @ [0x212A] @ js ''E'') [] = False"
    by (rule shouldPlayVideo_block_precedence [OF lc]) (use j s2 in blast)
  have v: "76 \<in> set (js ''Linear Algebra Lecture with MUSIC'') \<and> \<not> isWhitespace 76"
    "76 \<in> set (js ''Lecture JO'' @ [0x212A] @ js ''E'') \<and> \<not> isWhitespace 76"
    by (simp_all add: js_def isWhitespace_def)
  have 4: "hasStudyKeyword sampleToLowerCase (js ''Linear Algebra Lecture with MUSIC'')"
    using l s3 v(1) by (rule hasStudyKeyword_intro)
  have 5: "hasStudyKeyword sampleToLowerCase (js ''Lecture JO'' @ [0x212A] @ js ''E'')"
    using l s4 v(2) by (rule hasStudyKeyword_intro)
  from 1 2 3 4 5 show ?thesis by blast
qed

text \<open>
  C4. Whatever the platform's \<open>toLowerCase\<close> is: when no blocking keyword and no study
  keyword occurs (in lower case, as a substring) in the lower-case title or in the
  lower-case description, the video is blocked; and so is every video whose title and
  description are both empty or of white space only.
\<close>

theorem shouldPlayVideo_default_deny:
  "((\<forall>k\<in>set BLOCK_KEYWORDS \<union> set STUDY_KEYWORDS.
        \<not> sublist (toLowerCase k) (toLowerCase title) \<and>
        \<not> sublist (toLowerCase k) (toLowerCase description)) \<longrightarrow>
      shouldPlayVideo toLowerCase title description = False) \<and>
   ((\<forall>c\<in>set title. isWhitespace c) \<and> (\<forall>c\<in>set description. isWhitespace c) \<longrightarrow>
      shouldPlayVideo toLowerCase title description = False)"
proof (intro conjI impI)
  assume none: "\<forall>k\<in>set BLOCK_KEYWORDS \<union> set STUDY_KEYWORDS.
      \<not> sublist (toLowerCase k) (toLowerCase title) \<and>
      \<not> sublist (toLowerCase k) (toLowerCase description)"
  then have "\<not> hasBlockKeyword toLowerCase title"
    and "\<not> hasBlockKeyword toLowerCase description"
    by (auto dest!: hasBlockKeyword_imp)
  moreover from none have "\<not> hasStudyKeyword toLowerCase title"
    and "\<not> hasStudyKeyword toLowerCase description"
    by (auto dest!: hasStudyKeyword_imp)
  ultimately show "shouldPlayVideo toLowerCase title description = False"
    by (simp add: shouldPlayVideo_def)
next
  assume "(\<forall>c\<in>set title. isWhitespace c) \<and> (\<forall>c\<in>set description. isWhitespace c)"
  then show "shouldPlayVideo toLowerCase title description = False"
    by (simp add: shouldPlayVideo_def whitespace_not_matched)
qed

theorem shouldPlayVideo_default_deny_witness:
  "list_all (\<lambda>k. \<not> str_includes (sampleToLowerCase (js ''Budget 2024'')) (sampleToLowerCase k))
     (BLOCK_KEYWORDS @ STUDY_KEYWORDS) \<and>
   shouldPlayVideo sampleToLowerCase (js ''Budget 2024'') (js ''   '') = False \<and>
   shouldPlayVideo sampleToLowerCase [] [0x09, 0xA0, 0x20] = False"
proof -
  have b: "list_all
      (\<lambda>k. \<not> str_includes (sampleToLowerCase (js ''Budget 2024'')) (sampleToLowerCase k))
      (BLOCK_KEYWORDS @ STUDY_KEYWORDS)"
    by (simp only: BLOCK_KEYWORDS_def STUDY_KEYWORDS_def js_eval)
  then have t: "\<not> sublist (sampleToLowerCase k) (sampleToLowerCase (js ''Budget 2024''))"
    if "k \<in> set BLOCK_KEYWORDS \<union> set STUDY_KEYWORDS" for k
    using that by (auto simp: list_all_iff str_includes_sublist)
  have ws: "\<forall>c\<in>set (js ''   ''). isWhitespace c"
    by (simp add: js_def isWhitespace_def)
  have d: "\<not> sublist (sampleToLowerCase k) (sampleToLowerCase (js ''   ''))"
    if "k \<in> set BLOCK_KEYWORDS \<union> set STUDY_KEYWORDS" for k
    using whitespace_no_keyword [OF sampleToLowerCase_whitespace [THEN allI] ws that] .
  have "\<forall>k\<in>set BLOCK_KEYWORDS \<union> set STUDY_KEYWORDS.
      \<not> sublist (sampleToLowerCase k) (sampleToLowerCase (js ''Budget 2024'')) \<and>
      \<not> sublist (sampleToLowerCase k) (sampleToLowerCase (js ''   ''))"
    using t d by blast
  with shouldPlayVideo_default_deny [of sampleToLowerCase "js ''Budget 2024''" "js ''   ''"]
  have 1: "shouldPlayVideo sampleToLowerCase (js ''Budget 2024'') (js ''   '') = False"
    by blast
  have "(\<forall>c\<in>set []. isWhitespace c) \<and> (\<forall>c\<in>set [0x09, 0xA0, 0x20]. isWhitespace c)"
    by (simp add: isWhitespace_def)
  with shouldPlayVideo_default_deny [of sampleToLowerCase "[]" "[0x09, 0xA0, 0x20]"]
  have 2: "shouldPlayVideo sampleToLowerCase [] [0x09, 0xA0, 0x20] = False"
    by blast
  from b 1 2 show ?thesis by blast
qed

text \<open>
  A title written with the Kelvin sign, \<open>KOREAN\<close> with U+212A for its first letter:
  its lower-case form is \<open>korean\<close>, a study keyword, and no blocking keyword occurs in
  it, so the video plays.
\<close>

lemma shouldPlayVideo_kelvin:
  "shouldPlayVideo sampleToLowerCase ([0x212A] @ js ''OREAN'') [] = True"
proof -
  have "list_all
      (\<lambda>k. \<not> str_includes (sampleToLowerCase ([0x212A] @ js ''OREAN'')) (sampleToLowerCase k))
      BLOCK_KEYWORDS"
    by (simp only: BLOCK_KEYWORDS_def js_eval)
  then have "\<not> hasBlockKeyword sampleToLowerCase ([0x212A] @ js ''OREAN'')"
    by (auto dest!: hasBlockKeyword_imp simp: list_all_iff str_includes_sublist)
  moreover have "\<not> hasBlockKeyword sampleToLowerCase []"
    by (simp add: hasBlockKeyword_def)
  moreover have "js ''korean'' \<in> set STUDY_KEYWORDS"
    by (simp add: STUDY_KEYWORDS_def js_def)
  moreover have "sublist (sampleToLowerCase (js ''korean''))
      (sampleToLowerCase ([0x212A] @ js ''OREAN''))"
    by (simp add: sampleToLowerCase_def sampleLowerUnit_def js_def)
  moreover have "0x212A \<in> set ([0x212A] @ js ''OREAN'') \<and> \<not> isWhitespace 0x212A"
    by (simp add: isWhitespace_def)
  ultimately show ?thesis
    by (auto simp: shouldPlayVideo_def intro: hasStudyKeyword_intro)
qed

subsection \<open>Properties of the form analysis\<close>

lemma getDomain_same_page:
  assumes "u = [] \<or> prefix (js ''/'') u \<or> \<not> sublist (js ''://'') u \<or> urlHostname u = None"
  shows "getDomain urlHostname loc u = hostname loc"
  using assms by (auto simp: getDomain_def startsWith_def str_includes_sublist)

lemma getDomain_absolute:
  assumes "\<not> prefix (js ''/'') u" and "sublist (js ''://'') u" and "urlHostname u = Some h"
  shows "getDomain urlHostname loc u = h"
proof -
  from assms(2) have "u \<noteq> []" and "u \<noteq> js ''#''"
    by (auto simp: js_def sublist_Cons_right)
  with assms show ?thesis
    by (simp add: getDomain_def startsWith_def str_includes_sublist)
qed

lemma sensitiveInputs_analyzeForm:
  "sensitiveInputs (analyzeForm lc urlHostname loc f) =
     filter (isSensitiveInput lc) (filter (\<lambda>e. tagName e = js ''input'') (elements f))"
  by (simp add: analyzeForm_def querySelectorAll_def Let_def)

text \<open>
  C8. Whatever the platform's \<open>toLowerCase\<close> is: an element is sensitive exactly when its
  type, in lower case, is \<open>password\<close> or \<open>email\<close>, or when one of the six card keywords
  is a substring of its lower-case name or of its lower-case id.
\<close>

theorem isSensitiveInput_iff:
  "isSensitiveInput toLowerCase input \<longleftrightarrow>
     toLowerCase (type input) = js ''password'' \<or> toLowerCase (type input) = js ''email'' \<or>
     (\<exists>keyword\<in>set [js ''card'', js ''credit'', js ''debit'', js ''cvv'', js ''cvc'',
                      js ''expiry''].
        sublist keyword (toLowerCase (name input)) \<or>
        sublist keyword (toLowerCase (id' input)))"
  unfolding isSensitiveInput_def cardKeywords_def Let_def list_ex_iff str_includes_sublist
  by auto

theorem isSensitiveInput_iff_witness:
  "isSensitiveInput sampleToLowerCase
     \<lparr>tagName = js ''input'', type = js ''password'', name = js ''pw'', id' = []\<rparr> \<and>
   isSensitiveInput sampleToLowerCase
     \<lparr>tagName = js ''input'', type = js ''email'', name = [], id' = []\<rparr> \<and>
   isSensitiveInput sampleToLowerCase
     \<lparr>tagName = js ''input'', type = js ''text'', name = js ''CreditCardNo'', id' = []\<rparr> \<and>
   isSensitiveInput sampleToLowerCase
     \<lparr>tagName = js ''input'', type = js ''text'', name = [], id' = js ''pay-CVV''\<rparr> \<and>
   \<not> isSensitiveInput sampleToLowerCase
     \<lparr>tagName = js ''input'', type = js ''text'', name = js ''user'', id' = js ''q''\<rparr>"
proof -
  have 1: "isSensitiveInput sampleToLowerCase
      \<lparr>tagName = js ''input'', type = js ''password'', name = js ''pw'', id' = []\<rparr>"
    unfolding isSensitiveInput_iff
    by (simp add: sampleToLowerCase_def sampleLowerUnit_def js_def)
  have 2: "isSensitiveInput sampleToLowerCase
      \<lparr>tagName = js ''input'', type = js ''email'', name = [], id' = []\<rparr>"
    unfolding isSensitiveInput_iff
    by (simp add: sampleToLowerCase_def sampleLowerUnit_def js_def)
  have 3: "isSensitiveInput sampleToLowerCase
      \<lparr>tagName = js ''input'', type = js ''text'', name = js ''CreditCardNo'', id' = []\<rparr>"
    unfolding isSensitiveInput_iff
    by (simp add: sampleToLowerCase_def sampleLowerUnit_def js_def sublist_code)
  have 4: "isSensitiveInput sampleToLowerCase
      \<lparr>tagName = js ''input'', type = js ''text'', name = [], id' = js ''pay-CVV''\<rparr>"
    unfolding isSensitiveInput_iff
    by (simp add: sampleToLowerCase_def sampleLowerUnit_def js_def sublist_code)
  have 5: "\<not> isSensitiveInput sampleToLowerCase
      \<lparr>tagName = js ''input'', type = js ''text'', name = js ''user'', id' = js ''q''\<rparr>"
    unfolding isSensitiveInput_iff
    by (simp add: sampleToLowerCase_def sampleLowerUnit_def js_def sublist_code)
  from 1 2 3 4 5 show ?thesis by blast
qed

text \<open>
  C7. A form is reported suspicious exactly when one of its \<open>input\<close> elements is
  sensitive and the domain its action resolves to differs from the host name of the
  page. That domain is the host name of the page when the action is empty, relative (it
  starts with a slash or holds no \<open>://\<close>) or refused by the \<^verbatim>\<open>URL\<close> constructor, so
  that such a form is not suspicious; and it is the host name the \<^verbatim>\<open>URL\<close>
  constructor reads from the action in every other case, so that such a form with a
  sensitive input is suspicious exactly when that host name is not the page's.
\<close>

theorem analyzeForm_suspicious:
  "(isSuspicious (analyzeForm lc urlHostname loc f) \<longleftrightarrow>
      (\<exists>e\<in>set (elements f). tagName e = js ''input'' \<and> isSensitiveInput lc e) \<and>
      formDomain (analyzeForm lc urlHostname loc f) \<noteq> hostname loc) \<and>
   currentDomain (analyzeForm lc urlHostname loc f) = hostname loc \<and>
   (action f = [] \<or> prefix (js ''/'') (action f) \<or> \<not> sublist (js ''://'') (action f) \<or>
      urlHostname (action f) = None \<longrightarrow>
      formDomain (analyzeForm lc urlHostname loc f) = hostname loc \<and>
      \<not> isSuspicious (analyzeForm lc urlHostname loc f)) \<and>
   (\<forall>h. \<not> prefix (js ''/'') (action f) \<and> sublist (js ''://'') (action f) \<and>
        urlHostname (action f) = Some h \<longrightarrow>
      formDomain (analyzeForm lc urlHostname loc f) = h \<and>
      (isSuspicious (analyzeForm lc urlHostname loc f) \<longleftrightarrow>
         (\<exists>e\<in>set (elements f). tagName e = js ''input'' \<and> isSensitiveInput lc e) \<and>
         h \<noteq> hostname loc))"
proof -
  let ?r = "analyzeForm lc urlHostname loc f"
  let ?S = "\<exists>e\<in>set (elements f). tagName e = js ''input'' \<and> isSensitiveInput lc e"
  have fd: "formDomain ?r = getDomain urlHostname loc (action f)"
    and cd: "currentDomain ?r = hostname loc"
    by (simp_all add: analyzeForm_def Let_def)
  have "sensitiveInputs ?r \<noteq> [] \<longleftrightarrow> ?S"
    by (auto simp: sensitiveInputs_analyzeForm filter_empty_conv)
  then have sus: "isSuspicious ?r \<longleftrightarrow> ?S \<and> formDomain ?r \<noteq> hostname loc"
    by (simp add: analyzeForm_def Let_def)
  have same: "formDomain ?r = hostname loc \<and> \<not> isSuspicious ?r"
    if "action f = [] \<or> prefix (js ''/'') (action f) \<or> \<not> sublist (js ''://'') (action f) \<or>
      urlHostname (action f) = None"
    using getDomain_same_page [of "action f" urlHostname loc] that fd sus by simp
  have other: "formDomain ?r = h \<and> (isSuspicious ?r \<longleftrightarrow> ?S \<and> h \<noteq> hostname loc)"
    if "\<not> prefix (js ''/'') (action f) \<and> sublist (js ''://'') (action f) \<and>
      urlHostname (action f) = Some h" for h
    using getDomain_absolute [of "action f" urlHostname h loc] that fd sus by simp
  from sus cd same other show ?thesis by blast
qed

theorem analyzeForm_suspicious_witness:
  "isSuspicious (analyzeForm sampleToLowerCase
      (\<lambda>u. if u = js ''https://evil.com/submit'' then Some (js ''evil.com'')
           else if u = js ''https://bank.com/login'' then Some (js ''bank.com'') else None)
      \<lparr>hostname = js ''bank.com'', href = js ''https://bank.com/''\<rparr>
      \<lparr>action = js ''https://evil.com/submit'',
       elements = [\<lparr>tagName = js ''input'', type = js ''password'', name = js ''pw'',
                    id' = js ''pw''\<rparr>]\<rparr>) \<and>
   \<not> isSuspicious (analyzeForm sampleToLowerCase
      (\<lambda>u. if u = js ''https://evil.com/submit'' then Some (js ''evil.com'')
           else if u = js ''https://bank.com/login'' then Some (js ''bank.com'') else None)
      \<lparr>hostname = js ''bank.com'', href = js ''https://bank.com/''\<rparr>
      \<lparr>action = js ''https://bank.com/login'',
       elements = [\<lparr>tagName = js ''input'', type = js ''password'', name = js ''pw'',
                    id' = js ''pw''\<rparr>]\<rparr>) \<and>
   \<not> isSuspicious (analyzeForm sampleToLowerCase
      (\<lambda>u. if u = js ''https://evil.com/submit'' then Some (js ''evil.com'')
           else if u = js ''https://bank.com/login'' then Some (js ''bank.com'') else None)
      \<lparr>hostname = js ''bank.com'', href = js ''https://bank.com/''\<rparr>
      \<lparr>action = js ''/submit'',
       elements = [\<lparr>tagName = js ''input'', type = js ''password'', name = js ''pw'',
                    id' = js ''pw''\<rparr>]\<rparr>) \<and>
   \<not> isSuspicious (analyzeForm sampleToLowerCase
      (\<lambda>u. if u = js ''https://evil.com/submit'' then Some (js ''evil.com'')
           else if u = js ''https://bank.com/login'' then Some (js ''bank.com'') else None)
      \<lparr>hostname = js ''bank.com'', href = js ''https://bank.com/''\<rparr>
      \<lparr>action = js ''http://[bad'',
       elements = [\<lparr>tagName = js ''input'', type = js ''password'', name = js ''pw'',
                    id' = js ''pw''\<rparr>]\<rparr>) \<and>
   \<not> isSuspicious (analyzeForm sampleToLowerCase
      (\<lambda>u. if u = js ''https://evil.com/submit'' then Some (js ''evil.com'')
           else if u = js ''https://bank.com/login'' then Some (js ''bank.com'') else None)
      \<lparr>hostname = js ''bank.com'', href = js ''https://bank.com/''\<rparr>
      \<lparr>action = js ''https://evil.com/submit'',
       elements = [\<lparr>tagName = js ''input'', type = js ''text'', name = js ''q'',
                    id' = js ''q''\<rparr>]\<rparr>)"
proof -
  let ?U = "\<lambda>u. if u = js ''https://evil.com/submit'' then Some (js ''evil.com'')
      else if u = js ''https://bank.com/login'' then Some (js ''bank.com'') else None"
  let ?loc = "\<lparr>hostname = js ''bank.com'', href = js ''https://bank.com/''\<rparr>"
  let ?pw = "\<lparr>tagName = js ''input'', type = js ''password'', name = js ''pw'',
      id' = js ''pw''\<rparr>"
  let ?q = "\<lparr>tagName = js ''input'', type = js ''text'', name = js ''q'', id' = js ''q''\<rparr>"
  have pw: "isSensitiveInput sampleToLowerCase ?pw"
    by (simp add: isSensitiveInput_def sampleToLowerCase_def sampleLowerUnit_def js_def)
  have q: "\<not> isSensitiveInput sampleToLowerCase ?q"
    by (simp add: isSensitiveInput_def cardKeywords_def sampleToLowerCase_def
        sampleLowerUnit_def js_def)
  have e: "\<not> prefix (js ''/'') (js ''https://evil.com/submit'') \<and>
      sublist (js ''://'') (js ''https://evil.com/submit'') \<and>
      ?U (js ''https://evil.com/submit'') = Some (js ''evil.com'') \<and>
      js ''evil.com'' \<noteq> js ''bank.com''"
    by (simp add: js_def sublist_code)
  have b: "\<not> prefix (js ''/'') (js ''https://bank.com/login'') \<and>
      sublist (js ''://'') (js ''https://bank.com/login'') \<and>
      ?U (js ''https://bank.com/login'') = Some (js ''bank.com'')"
    by (simp add: js_def sublist_code)
  have r: "prefix (js ''/'') (js ''/submit'')" and m: "?U (js ''http://[bad'') = None"
    by (simp_all add: js_def)
  have 1: "isSuspicious (analyzeForm sampleToLowerCase ?U ?loc
      \<lparr>action = js ''https://evil.com/submit'', elements = [?pw]\<rparr>)"
    using analyzeForm_suspicious [of sampleToLowerCase ?U ?loc
        "\<lparr>action = js ''https://evil.com/submit'', elements = [?pw]\<rparr>"] pw e
    by (simp add: js_def sublist_code)
  have 2: "\<not> isSuspicious (analyzeForm sampleToLowerCase ?U ?loc
      \<lparr>action = js ''https://bank.com/login'', elements = [?pw]\<rparr>)"
    using analyzeForm_suspicious [of sampleToLowerCase ?U ?loc
        "\<lparr>action = js ''https://bank.com/login'', elements = [?pw]\<rparr>"] pw b
    by (simp add: js_def sublist_code)
  have 3: "\<not> isSuspicious (analyzeForm sampleToLowerCase ?U ?loc
      \<lparr>action = js ''/submit'', elements = [?pw]\<rparr>)"
    using analyzeForm_suspicious [of sampleToLowerCase ?U ?loc
        "\<lparr>action = js ''/submit'', elements = [?pw]\<rparr>"] r
    by (simp add: js_def sublist_code)
  have 4: "\<not> isSuspicious (analyzeForm sampleToLowerCase ?U ?loc
      \<lparr>action = js ''http://[bad'', elements = [?pw]\<rparr>)"
    using analyzeForm_suspicious [of sampleToLowerCase ?U ?loc
        "\<lparr>action = js ''http://[bad'', elements = [?pw]\<rparr>"] m
    by (simp add: js_def sublist_code)
  have 5: "\<not> isSuspicious (analyzeForm sampleToLowerCase ?U ?loc
      \<lparr>action = js ''https://evil.com/submit'', elements = [?q]\<rparr>)"
    using analyzeForm_suspicious [of sampleToLowerCase ?U ?loc
        "\<lparr>action = js ''https://evil.com/submit'', elements = [?q]\<rparr>"] q
    by (simp add: js_def sublist_code)
  from 1 2 3 4 5 show ?thesis by blast
qed

text \<open>
  C10. The sensitive inputs of a form are among its \<open>input\<close> elements; a form without
  an \<open>input\<close> element, whatever its other elements and its action are, has no
  sensitive input and is not suspicious.
\<close>

theorem analyzeForm_inputs_only:
  "set (sensitiveInputs (analyzeForm lc urlHostname loc f)) \<subseteq>
     {e. e \<in> set (elements f) \<and> tagName e = js ''input'' \<and> isSensitiveInput lc e} \<and>
   ((\<forall>e\<in>set (elements f). tagName e \<noteq> js ''input'') \<longrightarrow>
      sensitiveInputs (analyzeForm lc urlHostname loc f) = [] \<and>
      \<not> isSuspicious (analyzeForm lc urlHostname loc f))"
  by (auto simp: analyzeForm_def querySelectorAll_def Let_def filter_empty_conv)

theorem analyzeForm_inputs_only_witness:
  "isSensitiveInput sampleToLowerCase
     \<lparr>tagName = js ''textarea'', type = js ''textarea'', name = js ''card'', id' = js ''c''\<rparr> \<and>
   getDomain (\<lambda>u. if u = js ''https://evil.com/submit'' then Some (js ''evil.com'') else None)
      \<lparr>hostname = js ''bank.com'', href = js ''https://bank.com/pay''\<rparr>
      (js ''https://evil.com/submit'') \<noteq> js ''bank.com'' \<and>
   sensitiveInputs (analyzeForm sampleToLowerCase
      (\<lambda>u. if u = js ''https://evil.com/submit'' then Some (js ''evil.com'') else None)
      \<lparr>hostname = js ''bank.com'', href = js ''https://bank.com/pay''\<rparr>
      \<lparr>action = js ''https://evil.com/submit'',
       elements =
         [\<lparr>tagName = js ''textarea'', type = js ''textarea'', name = js ''card'', id' = js ''c''\<rparr>,
          \<lparr>tagName = js ''select'', type = js ''select-one'', name = js ''expiry'',
            id' = js ''e''\<rparr>]\<rparr>) = [] \<and>
   \<not> isSuspicious (analyzeForm sampleToLowerCase
      (\<lambda>u. if u = js ''https://evil.com/submit'' then Some (js ''evil.com'') else None)
      \<lparr>hostname = js ''bank.com'', href = js ''https://bank.com/pay''\<rparr>
      \<lparr>action = js ''https://evil.com/submit'',
       elements =
         [\<lparr>tagName = js ''textarea'', type = js ''textarea'', name = js ''card'', id' = js ''c''\<rparr>,
          \<lparr>tagName = js ''select'', type = js ''select-one'', name = js ''expiry'',
            id' = js ''e''\<rparr>]\<rparr>)"
proof -
  let ?U = "\<lambda>u. if u = js ''https://evil.com/submit'' then Some (js ''evil.com'') else None"
  let ?loc = "\<lparr>hostname = js ''bank.com'', href = js ''https://bank.com/pay''\<rparr>"
  let ?t = "\<lparr>tagName = js ''textarea'', type = js ''textarea'', name = js ''card'',
      id' = js ''c''\<rparr>"
  let ?s = "\<lparr>tagName = js ''select'', type = js ''select-one'', name = js ''expiry'',
      id' = js ''e''\<rparr>"
  have t: "isSensitiveInput sampleToLowerCase ?t"
    by (simp add: isSensitiveInput_def cardKeywords_def sampleToLowerCase_def
        sampleLowerUnit_def js_def)
  have "getDomain ?U ?loc (js ''https://evil.com/submit'') = js ''evil.com''"
    by (rule getDomain_absolute) (simp_all add: js_def sublist_code)
  then have evil: "getDomain ?U ?loc (js ''https://evil.com/submit'') \<noteq> js ''bank.com''"
    by (simp add: js_def)
  have "\<forall>e\<in>set (elements \<lparr>action = js ''https://evil.com/submit'', elements = [?t, ?s]\<rparr>).
      tagName e \<noteq> js ''input''"
    by (simp add: js_def)
  with analyzeForm_inputs_only
    [of sampleToLowerCase ?U ?loc
      "\<lparr>action = js ''https://evil.com/submit'', elements = [?t, ?s]\<rparr>"]
  have "sensitiveInputs (analyzeForm sampleToLowerCase ?U ?loc
        \<lparr>action = js ''https://evil.com/submit'', elements = [?t, ?s]\<rparr>) = [] \<and>
      \<not> isSuspicious (analyzeForm sampleToLowerCase ?U ?loc
        \<lparr>action = js ''https://evil.com/submit'', elements = [?t, ?s]\<rparr>)"
    by blast
  with t evil show ?thesis by blast
qed

subsection \<open>Properties of the shortener detection\<close>

lemma replace_prefix: "prefix pat s \<Longrightarrow> replace s pat rep = rep @ drop (length pat) s"
  by (cases s) simp_all

lemma replace_no_occurrence: "\<not> sublist pat s \<Longrightarrow> replace s pat rep = s"
  by (induction s) (auto simp: sublist_Cons_right)

lemma length_js: "length (js s) = length s"
  by (simp add: js_def)

lemma isShortener_iff:
  "isShortener (detectUrlShortener loc) \<longleftrightarrow>
     replace (hostname loc) (js ''www.'') [] \<in> set URL_SHORTENERS"
  by (auto simp: detectUrlShortener_def Let_def list_ex_iff)

text \<open>
  On a host name in which \<open>www.\<close> stands at the front or nowhere,
  \<^verbatim>\<open>detectUrlShortener\<close> answers as the stripping of a leading \<open>www.\<close> does.
\<close>

lemma detectUrlShortener_agrees:
  assumes "prefix (js ''www.'') (hostname loc) \<or> \<not> sublist (js ''www.'') (hostname loc)"
  shows "isShortener (detectUrlShortener loc) \<longleftrightarrow>
     stripLeadingWww (hostname loc) \<in> set URL_SHORTENERS"
proof (cases "prefix (js ''www.'') (hostname loc)")
  case True
  then show ?thesis
    by (simp add: isShortener_iff stripLeadingWww_def replace_prefix length_js
        eval_nat_numeral)
next
  case False
  with assms have "\<not> sublist (js ''www.'') (hostname loc)" by simp
  with False show ?thesis
    by (simp add: isShortener_iff stripLeadingWww_def replace_no_occurrence)
qed

lemma detectUrlShortener_examples:
  "isShortener (detectUrlShortener
      \<lparr>hostname = js ''bit.ly'', href = js ''https://bit.ly/x''\<rparr>) \<and>
   isShortener (detectUrlShortener
      \<lparr>hostname = js ''www.bit.ly'', href = js ''https://www.bit.ly/x''\<rparr>) \<and>
   \<not> isShortener (detectUrlShortener
      \<lparr>hostname = js ''notbit.ly'', href = js ''https://notbit.ly/''\<rparr>)"
  by (simp add: isShortener_iff URL_SHORTENERS_def js_def)

text \<open>
  C2. On the host name \<open>t.www.co\<close> the code removes the \<open>www.\<close> in the middle, compares
  \<open>t.co\<close> with the list and reports a shortener, although the host name has no leading
  \<open>www.\<close> and is not in the list itself.
\<close>

theorem detectUrlShortener_inner_www:
  "isShortener (detectUrlShortener
      \<lparr>hostname = js ''t.www.co'', href = js ''https://t.www.co/''\<rparr>) \<and>
   domain (detectUrlShortener
      \<lparr>hostname = js ''t.www.co'', href = js ''https://t.www.co/''\<rparr>) = js ''t.co'' \<and>
   stripLeadingWww (js ''t.www.co'') = js ''t.www.co'' \<and>
   stripLeadingWww (js ''t.www.co'') \<notin> set URL_SHORTENERS"
  by (simp add: detectUrlShortener_def stripLeadingWww_def URL_SHORTENERS_def js_def)

lemma pushIfShortened_append:
  "pushIfShortened urlHostname acc link = acc @ pushIfShortened urlHostname [] link"
  by (simp add: pushIfShortened_def Let_def split: option.splits)

lemma foldl_pushIfShortened:
  "foldl (pushIfShortened urlHostname) acc links =
     acc @ concat (map (pushIfShortened urlHostname []) links)"
proof (induction links arbitrary: acc)
  case Nil
  then show ?case by simp
next
  case (Cons l links)
  have "foldl (pushIfShortened urlHostname) acc (l # links) =
      foldl (pushIfShortened urlHostname) (acc @ pushIfShortened urlHostname [] l) links"
    using pushIfShortened_append [of urlHostname acc l] by simp
  then show ?case by (simp add: Cons.IH)
qed

lemma concat_map_filter:
  assumes "\<And>x. g x = (if P x then [f x] else [])"
  shows "concat (map g xs) = map f (filter P xs)"
  by (induction xs) (simp_all add: assms)

text \<open>
  The loop over the links is a filter followed by a map: the links found are the
  entries of exactly those links whose \<^verbatim>\<open>href\<close> the \<^verbatim>\<open>URL\<close> constructor accepts
  and whose host name, after \<^verbatim>\<open>replace('www.', '')\<close>, is in the list of shorteners.
  They stand in the order of the links, and a link that occurs several times is reported
  as many times.
\<close>

lemma analyzeShortener_map_filter:
  "linksFound (analyzeShortener urlHostname loc links) =
     map (\<lambda>l. \<lparr>domain = (case urlHostname (href' l) of
                           Some host \<Rightarrow> replace host (js ''www.'') [] | None \<Rightarrow> []),
               url' = href' l, text' = take 50 (trim (textContent l))\<rparr>)
       (filter (\<lambda>l. case urlHostname (href' l) of
                      Some host \<Rightarrow> replace host (js ''www.'') [] \<in> set URL_SHORTENERS
                    | None \<Rightarrow> False) links)"
proof -
  let ?P = "\<lambda>l. case urlHostname (href' l) of
      Some host \<Rightarrow> replace host (js ''www.'') [] \<in> set URL_SHORTENERS | None \<Rightarrow> False"
  let ?E = "\<lambda>l. \<lparr>domain = (case urlHostname (href' l) of
        Some host \<Rightarrow> replace host (js ''www.'') [] | None \<Rightarrow> []),
      url' = href' l, text' = take 50 (trim (textContent l))\<rparr>"
  have step: "pushIfShortened urlHostname [] l = (if ?P l then [?E l] else [])" for l
    by (simp add: pushIfShortened_def Let_def list_ex_iff split: option.splits)
  have "linksFound (analyzeShortener urlHostname loc links) =
      concat (map (pushIfShortened urlHostname []) links)"
    by (simp add: analyzeShortener_def Let_def foldl_pushIfShortened)
  also have "\<dots> = map ?E (filter ?P links)"
    using step by (rule concat_map_filter)
  finally show ?thesis .
qed

text \<open>
  C9. A page with one link, to the host \<open>t.www.co\<close>: the code removes the \<open>www.\<close> in
  the middle of the host name, finds \<open>t.co\<close> in the list and returns the link, although
  the host name with a leading \<open>www.\<close> stripped is \<open>t.www.co\<close> itself, which is not in
  the list.
\<close>

theorem analyzeShortener_inner_www:
  "linksFound (analyzeShortener
      (\<lambda>u. if u = js ''https://t.www.co/x'' then Some (js ''t.www.co'') else None)
      \<lparr>hostname = js ''example.com'', href = js ''https://example.com/''\<rparr>
      [\<lparr>href' = js ''https://t.www.co/x'', textContent = js '' offer ''\<rparr>]) =
     [\<lparr>domain = js ''t.co'', url' = js ''https://t.www.co/x'', text' = js ''offer''\<rparr>] \<and>
   stripLeadingWww (js ''t.www.co'') \<notin> set URL_SHORTENERS"
  by (simp add: analyzeShortener_def pushIfShortened_def stripLeadingWww_def
      URL_SHORTENERS_def trim_def isWhitespace_def js_def)

end
